theory Spec2Isabelle
  imports Main "HOL-Library.Word"
begin

section \<open>The ClickHouse output of clickhouse\_sinker (output/clickhouse.go)\<close>

text \<open>
  The development embeds \<^verbatim>\<open>src/output/clickhouse.go\<close>: the failure classifier
  \<^verbatim>\<open>shouldReconnect\<close>, the batch executor \<^verbatim>\<open>write\<close>, the retry loop
  \<^verbatim>\<open>loopWrite\<close> and the schema resolver \<^verbatim>\<open>initSchema\<close>.
  The calls that \<^verbatim>\<open>write\<close> and \<^verbatim>\<open>loopWrite\<close> make on the connection, the statistics and
  the callback are effects on an explicit world; \<^verbatim>\<open>initSchema\<close> is a function of what its
  one catalog query returns. Diagnostic logging (\<^verbatim>\<open>log.Info\<close>, \<^verbatim>\<open>log.Error\<close>,
  \<^verbatim>\<open>log.Errorf\<close>) is left out.
\<close>

subsection \<open>Errors and strings\<close>

text \<open>
  A Go \<^verbatim>\<open>error\<close> is observed by the source in two ways only: through its message
  (\<^verbatim>\<open>err.Error()\<close>) and through \<^verbatim>\<open>errors.Is(err, context.Canceled)\<close>. An error value
  therefore carries its message and whether its chain reaches \<^verbatim>\<open>context.Canceled\<close>.
  A nil error is \<open>None\<close>.
\<close>

record err =
  message :: string
  canceled :: bool

text \<open>
  \<^verbatim>\<open>errors.Wrap(err, "")\<close> of github.com/pkg/errors: the message of the wrapped error is
  the given text, a colon, a blank and the message of the cause; the cause stays reachable
  through \<^verbatim>\<open>Unwrap\<close>.
\<close>

definition Wrap :: "err \<Rightarrow> string \<Rightarrow> err" where
  "Wrap e m = e\<lparr>message := m @ '': '' @ message e\<rparr>"

text \<open>\<^verbatim>\<open>strings.Contains(s, substr)\<close>: does \<open>substr\<close> occur in \<open>s\<close> as a contiguous run of bytes.\<close>

fun has_prefix :: "string \<Rightarrow> string \<Rightarrow> bool" where
  "has_prefix s [] = True"
| "has_prefix [] (p # ps) = False"
| "has_prefix (c # cs) (p # ps) = (c = p \<and> has_prefix cs ps)"

fun Contains :: "string \<Rightarrow> string \<Rightarrow> bool" where
  "Contains [] substr = (substr = [])"
| "Contains (c # cs) substr = (has_prefix (c # cs) substr \<or> Contains cs substr)"

text \<open>\<^verbatim>\<open>strings.Join(elems, sep)\<close>.\<close>

fun Join :: "string list \<Rightarrow> string \<Rightarrow> string" where
  "Join [] sep = []"
| "Join [x] sep = x"
| "Join (x # y # ys) sep = x @ sep @ Join (y # ys) sep"

subsection \<open>The failure classifier\<close>

definition shouldReconnect :: "err \<Rightarrow> bool" where
  "shouldReconnect e =
     (if Contains (message e) ''connection refused'' \<or> Contains (message e) ''bad connection''
      then True
      else False)"

subsection \<open>Configuration, batches and the sink\<close>

text \<open>
  The packages \<^verbatim>\<open>config\<close> and \<^verbatim>\<open>model\<close> are used through the fields the source reads.
  \<^verbatim>\<open>RetryTimes\<close> is a Go \<^verbatim>\<open>int\<close>: a 64-bit two's complement integer, compared as signed.
  A row of a batch is \<^verbatim>\<open>msgRow.Row\<close>, a slice of values that may be nil (\<open>None\<close>).
\<close>

record ColumnWithType =
  Name :: string
  Type :: string
  SourceName :: string

record TaskConfig =
  task_Name :: string
  Clickhouse :: string
  TableName :: string
  AutoSchema :: bool
  ExcludeColumns :: "string list"
  task_Dims :: "ColumnWithType list"

record ClickHouseConfig =
  DB :: string
  RetryTimes :: "64 word"

record ClickHouse =
  Dims :: "ColumnWithType list"
  taskCfg :: TaskConfig
  chCfg :: ClickHouseConfig
  prepareSQL :: string
  dms :: "string list"

record 'v Batch =
  MsgRows :: "'v list option list"
  BatchIdx :: int
  RealSize :: int

subsection \<open>The collaborators: connection, statistics, callback\<close>

text \<open>
  Every call the source makes on a collaborator is recorded, in order, in a trace. The
  results of the connection's calls are given by a script: \<open>begin_result drv n\<close> is what
  \<^verbatim>\<open>conn.Begin()\<close> returns in the \<open>n\<close>-th attempt that reaches the connection,
  \<open>exec_result drv n i vs\<close> what \<^verbatim>\<open>stmt.Exec\<close> returns there for the row at position \<open>i\<close>
  of the batch. The source is sequential, so any behaviour of a real connection during one
  run is such a script. The result of \<^verbatim>\<open>conn.ReConnect()\<close> is discarded by the source
  (\<^verbatim>\<open>_ = conn.ReConnect()\<close>) and so is not part of the script. The result of the callback
  is discarded as well.
\<close>

datatype 'v event =
    GetConn string int
  | ConnBegin
  | TxPrepare string
  | StmtExec "'v list"
  | StmtClose
  | TxCommit
  | ConnReConnect
  | Callback "'v Batch"
  | Sleep nat

record 'v driver =
  begin_result :: "nat \<Rightarrow> err option"
  prepare_result :: "nat \<Rightarrow> string \<Rightarrow> err option"
  exec_result :: "nat \<Rightarrow> nat \<Rightarrow> 'v list \<Rightarrow> err option"
  commit_result :: "nat \<Rightarrow> err option"

text \<open>
  The counters of package \<^verbatim>\<open>statistics\<close> for the task's label, as integers (the source
  adds \<^verbatim>\<open>float64(batch.RealSize)\<close>), with the number of attempts that reached the
  connection and the trace.
\<close>

record 'v world =
  attempts :: nat
  trace :: "'v event list"
  FlushMsgsTotal :: int
  FlushMsgsErrorTotal :: int
  ClickhouseReconnectTotal :: int
  FlushBatchBacklog :: int

definition emit :: "'v event \<Rightarrow> 'v world \<Rightarrow> 'v world" where
  "emit ev w = w\<lparr>trace := trace w @ [ev]\<rparr>"

subsection \<open>The batch executor\<close>

text \<open>
  The block the source repeats after \<^verbatim>\<open>Begin\<close>, \<^verbatim>\<open>Prepare\<close> and \<^verbatim>\<open>Commit\<close> fail:
  \<^verbatim>\<open>if shouldReconnect(err) { _ = conn.ReConnect(); ClickhouseReconnectTotal.Inc() }\<close>.
\<close>

definition reconnect_if_broken :: "err \<Rightarrow> 'v world \<Rightarrow> 'v world" where
  "reconnect_if_broken e w =
     (if shouldReconnect e
      then (emit ConnReConnect w)\<lparr>ClickhouseReconnectTotal := ClickhouseReconnectTotal w + 1\<rparr>
      else w)"

text \<open>
  The loop over \<^verbatim>\<open>batch.MsgRows\<close> (lines 102 to 109). Its state is the variable \<^verbatim>\<open>err\<close>
  of the function, \<^verbatim>\<open>numErr\<close> and the world; \<open>i\<close> is the position of the next row. The
  statement \<^verbatim>\<open>_, err = stmt.Exec(msgRow.Row...)\<close> assigns \<^verbatim>\<open>err\<close> at every non-nil row,
  with nil when the row executes.
\<close>

fun exec_rows ::
  "'v driver \<Rightarrow> nat \<Rightarrow> nat \<Rightarrow> 'v list option list \<Rightarrow>
   err option \<times> nat \<times> 'v world \<Rightarrow> err option \<times> nat \<times> 'v world" where
  "exec_rows drv n i [] st = st"
| "exec_rows drv n i (None # rows) st = exec_rows drv n (Suc i) rows st"
| "exec_rows drv n i (Some vs # rows) (e, numErr, w) =
     (case exec_result drv n i vs of
        Some e' \<Rightarrow> exec_rows drv n (Suc i) rows (Some (Wrap e' []), numErr + 1, emit (StmtExec vs) w)
      | None \<Rightarrow> exec_rows drv n (Suc i) rows (None, numErr, emit (StmtExec vs) w))"

text \<open>
  \<^verbatim>\<open>write\<close> (here \<open>write_batch\<close>, as \<open>write\<close> is a keyword of Isabelle) returns the
  error (\<open>None\<close> for nil) and the world after the call. The deferred
  \<^verbatim>\<open>stmt.Close()\<close> runs last on every path after the statement is prepared.
\<close>

definition write_batch :: "ClickHouse \<Rightarrow> 'v driver \<Rightarrow> 'v Batch \<Rightarrow> 'v world \<Rightarrow> err option \<times> 'v world" where
  "write_batch c drv batch w =
     (if length (MsgRows batch) = 0 then (None, w)
      else
        let n = attempts w;
            w1 = emit ConnBegin
                   (emit (GetConn (Clickhouse (taskCfg c)) (BatchIdx batch)) (w\<lparr>attempts := n + 1\<rparr>))
        in case begin_result drv n of
             Some e \<Rightarrow> (Some e, reconnect_if_broken e w1)
           | None \<Rightarrow>
               let w2 = emit (TxPrepare (prepareSQL c)) w1
               in case prepare_result drv n (prepareSQL c) of
                    Some e \<Rightarrow> (Some e, reconnect_if_broken e w2)
                  | None \<Rightarrow>
                      (case exec_rows drv n 0 (MsgRows batch) (None, 0, w2) of
                         (Some e, numErr, w3) \<Rightarrow> (Some e, emit StmtClose w3)
                       | (None, numErr, w3) \<Rightarrow>
                           let w4 = emit TxCommit w3
                           in case commit_result drv n of
                                Some e \<Rightarrow>
                                  let e' = Wrap e []
                                  in (Some e', emit StmtClose (reconnect_if_broken e' w4))
                              | None \<Rightarrow>
                                  (None,
                                   emit StmtClose
                                     (w4\<lparr>FlushMsgsTotal := FlushMsgsTotal w4 + RealSize batch\<rparr>))))"

subsection \<open>The retry loop\<close>

text \<open>
  One unit of fuel is one iteration of the \<^verbatim>\<open>for\<close> loop of \<^verbatim>\<open>loopWrite\<close>, that is one call
  of \<^verbatim>\<open>write\<close>. The function is the loop from its head, with the local variable \<^verbatim>\<open>times\<close>
  (written \<open>tm\<close>) and the world as they are there. \<open>Returned\<close> holds the value of \<^verbatim>\<open>times\<close> and the world
  when the loop executes \<^verbatim>\<open>return\<close>; \<open>StillLooping\<close> holds them at the loop head when the
  fuel ran out before that.
\<close>

datatype 'a run = Returned 'a | StillLooping 'a

fun loop :: "nat \<Rightarrow> ClickHouse \<Rightarrow> 'v driver \<Rightarrow> 'v Batch \<Rightarrow> 64 word \<Rightarrow> 'v world \<Rightarrow> (64 word \<times> 'v world) run" where
  "loop 0 c drv batch tm w = StillLooping (tm, w)"
| "loop (Suc fuel) c drv batch tm w =
     (case write_batch c drv batch w of
        (None, w1) \<Rightarrow> Returned (tm, emit (Callback batch) w1)
      | (Some e, w1) \<Rightarrow>
          if canceled e then Returned (tm, w1)
          else
            let tm' = tm - 1
            in if 0 <s tm'
               then Returned (tm', w1\<lparr>FlushMsgsErrorTotal := FlushMsgsErrorTotal w1 + RealSize batch\<rparr>)
               else loop fuel c drv batch tm' (emit (Sleep 10) w1))"

text \<open>
  \<^verbatim>\<open>loopWrite\<close>: the loop started with \<^verbatim>\<open>times := c.chCfg.RetryTimes\<close>; the deferred
  decrement of the backlog gauge runs when the loop returns.
\<close>

definition loopWrite :: "nat \<Rightarrow> ClickHouse \<Rightarrow> 'v driver \<Rightarrow> 'v Batch \<Rightarrow> 'v world \<Rightarrow> (64 word \<times> 'v world) run" where
  "loopWrite fuel c drv batch w =
     (case loop fuel c drv batch (RetryTimes (chCfg c)) w of
        Returned (tm, w') \<Rightarrow> Returned (tm, w'\<lparr>FlushBatchBacklog := FlushBatchBacklog w' - 1\<rparr>)
      | StillLooping st \<Rightarrow> StillLooping st)"

definition Send :: "nat \<Rightarrow> ClickHouse \<Rightarrow> 'v driver \<Rightarrow> 'v Batch \<Rightarrow> 'v world \<Rightarrow> (64 word \<times> 'v world) run" where
  "Send fuel c drv batch w =
     loopWrite fuel c drv batch (w\<lparr>FlushBatchBacklog := FlushBatchBacklog w + 1\<rparr>)"

text \<open>The values of the rows that are not nil, in the order of the batch.\<close>

fun non_nil_rows :: "'v list option list \<Rightarrow> 'v list list" where
  "non_nil_rows [] = []"
| "non_nil_rows (None # rows) = non_nil_rows rows"
| "non_nil_rows (Some vs # rows) = vs # non_nil_rows rows"

text \<open>The batches the completion callback was called with, in the order of the trace.\<close>

fun callbacks :: "'v event list \<Rightarrow> 'v Batch list" where
  "callbacks [] = []"
| "callbacks (Callback b # evs) = b # callbacks evs"
| "callbacks (ev # evs) = callbacks evs"

subsection \<open>The schema resolver\<close>

text \<open>
  \<^verbatim>\<open>lowCardinalityRegexp = regexp.MustCompile(`LowCardinality\((.+)\)`)\<close> and
  \<^verbatim>\<open>lowCardinalityRegexp.ReplaceAllString(typ, "$1")\<close>, by the rules of Go's package
  \<^verbatim>\<open>regexp\<close>: matches are found from left to right and do not overlap; a match starts
  with the literal text \<^verbatim>\<open>LowCardinality(\<close>; the group \<^verbatim>\<open>(.+)\<close> is greedy and takes the
  longest non-empty run of characters other than newline that a closing parenthesis
  follows; each match is replaced by its group.

  \<open>greedy_group s\<close> matches \<^verbatim>\<open>(.+)\)\<close> at the start of \<open>s\<close> and returns the group and the
  text after the match.
\<close>

definition lowCardinality_open :: string where
  "lowCardinality_open = ''LowCardinality(''"

fun greedy_group :: "string \<Rightarrow> (string \<times> string) option" where
  "greedy_group [] = None"
| "greedy_group (ch # s) =
     (if ch = CHR 0x0A then None
      else case greedy_group s of
             Some (g, rest) \<Rightarrow> Some (ch # g, rest)
           | None \<Rightarrow>
               (case s of
                  [] \<Rightarrow> None
                | ch' # rest \<Rightarrow> if ch' = CHR '')'' then Some ([ch], rest) else None))"

function ReplaceAllString :: "string \<Rightarrow> string" where
  "ReplaceAllString [] = []"
| "ReplaceAllString (ch # s) =
     (if has_prefix (ch # s) lowCardinality_open
      then (case greedy_group (drop (length lowCardinality_open) (ch # s)) of
              Some (g, rest) \<Rightarrow> g @ ReplaceAllString rest
            | None \<Rightarrow> ch # ReplaceAllString s)
      else ch # ReplaceAllString s)"
  by pat_completeness auto
termination
proof (relation "measure length")
  show "wf (measure length)" by simp
next
  fix ch :: char and s x2 x y
  assume "greedy_group (drop (length lowCardinality_open) (ch # s)) = Some x2" and "(x, y) = x2"
  then have m: "greedy_group (drop (length lowCardinality_open) (ch # s)) = Some (x, y)"
    by simp
  have shorter: "greedy_group u = Some (g, rest) \<Longrightarrow> length rest < length u" for u g rest
    by (induction u arbitrary: g rest) (auto split: if_splits option.splits list.splits)
  have "length y < length (drop (length lowCardinality_open) (ch # s))"
    using m by (rule shorter)
  then show "(y, ch # s) \<in> measure length" by simp
qed simp_all

text \<open>
  Modelled from the spec: \<^verbatim>\<open>util.StringContains\<close>, which is not among the sources. The spec
  excludes the columns "whose name is present in a caller-supplied exclude-list".
\<close>

fun StringContains :: "string list \<Rightarrow> string \<Rightarrow> bool" where
  "StringContains [] x = False"
| "StringContains (y # ys) x = (if y = x then True else StringContains ys x)"

text \<open>\<^verbatim>\<open>fmt.Sprintf(selectSQLTemplate, db, table)\<close>; \<open>CHR 0x27\<close> is the single quote.\<close>

definition selectSQL :: "string \<Rightarrow> string \<Rightarrow> string" where
  "selectSQL db table =
     ''select name, type, default_kind from system.columns where database = '' @ [CHR 0x27] @ db @
     [CHR 0x27] @ '' and table = '' @ [CHR 0x27] @ table @ [CHR 0x27]"

text \<open>
  The loop \<^verbatim>\<open>for rs.Next()\<close> (lines 175 to 181). The cursor is the list of the triples that
  the variables \<^verbatim>\<open>name\<close>, \<^verbatim>\<open>typ\<close> and \<^verbatim>\<open>defaultKind\<close> hold after each \<^verbatim>\<open>rs.Scan\<close>, whose
  error the source discards. \<^verbatim>\<open>util.GetSourceName\<close> is not among the sources and is a
  parameter.
\<close>

fun scan_rows ::
  "string list \<Rightarrow> (string \<Rightarrow> string) \<Rightarrow> (string \<times> string \<times> string) list \<Rightarrow>
   ColumnWithType list \<Rightarrow> ColumnWithType list" where
  "scan_rows excl GetSourceName [] dims = dims"
| "scan_rows excl GetSourceName ((name, typ, defaultKind) # rs) dims =
     (let typ' = ReplaceAllString typ
      in if \<not> StringContains excl name \<and> defaultKind \<noteq> ''MATERIALIZED''
         then scan_rows excl GetSourceName rs
                (dims @ [\<lparr>Name = name, Type = typ', SourceName = GetSourceName name\<rparr>])
         else scan_rows excl GetSourceName rs dims)"

text \<open>
  \<^verbatim>\<open>initSchema\<close>. \<open>Query\<close> is \<^verbatim>\<open>conn.Query\<close> of the connection \<^verbatim>\<open>pool.GetConn\<close> returns: an
  error or the cursor. The result is the error the function returns, or the sink with
  \<^verbatim>\<open>Dims\<close>, \<^verbatim>\<open>dms\<close> and \<^verbatim>\<open>prepareSQL\<close> set.
\<close>

definition initSchema ::
  "(string \<Rightarrow> err + (string \<times> string \<times> string) list) \<Rightarrow> (string \<Rightarrow> string) \<Rightarrow>
   ClickHouse \<Rightarrow> err + ClickHouse" where
  "initSchema Query GetSourceName c =
     (case (if AutoSchema (taskCfg c)
            then (case Query (selectSQL (DB (chCfg c)) (TableName (taskCfg c))) of
                    Inl e \<Rightarrow> Inl e
                  | Inr rs \<Rightarrow> Inr (scan_rows (ExcludeColumns (taskCfg c)) GetSourceName rs []))
            else Inr (map (\<lambda>dim. \<lparr>Name = Name dim, Type = Type dim, SourceName = SourceName dim\<rparr>)
                        (task_Dims (taskCfg c)))) of
        Inl e \<Rightarrow> Inl e
      | Inr dims \<Rightarrow>
          let names = map Name dims;
              params = replicate (length dims) ''?''
          in Inr (c\<lparr>Dims := dims, dms := names,
                    prepareSQL :=
                      ''INSERT INTO '' @ DB (chCfg c) @ ''.'' @ TableName (taskCfg c) @ '' ('' @
                      Join names '','' @ '') '' @ ''VALUES ('' @ Join params '','' @ '')''\<rparr>))"

text \<open>\<^verbatim>\<open>Init\<close> returns the error of \<^verbatim>\<open>initSchema\<close>, or nil.\<close>

definition Init ::
  "(string \<Rightarrow> err + (string \<times> string \<times> string) list) \<Rightarrow> (string \<Rightarrow> string) \<Rightarrow>
   ClickHouse \<Rightarrow> err + ClickHouse" where
  "Init Query GetSourceName c =
     (case initSchema Query GetSourceName c of Inl e \<Rightarrow> Inl e | Inr c' \<Rightarrow> Inr c')"

subsection \<open>Example sinks, batches and connections\<close>

text \<open>A sink with one column and the retry budget \<open>N\<close>, as \<^verbatim>\<open>initSchema\<close> leaves it.\<close>

definition sink :: "64 word \<Rightarrow> ClickHouse" where
  "sink N =
     \<lparr>Dims = [\<lparr>Name = ''id'', Type = ''Int32'', SourceName = ''id''\<rparr>],
      taskCfg = \<lparr>task_Name = ''task'', Clickhouse = ''ch1'', TableName = ''table'',
                 AutoSchema = False, ExcludeColumns = [],
                 task_Dims = [\<lparr>Name = ''id'', Type = ''Int32'', SourceName = ''id''\<rparr>]\<rparr>,
      chCfg = \<lparr>DB = ''db'', RetryTimes = N\<rparr>,
      prepareSQL = ''INSERT INTO db.table (id) VALUES (?)'',
      dms = [''id'']\<rparr>"

definition world0 :: "int world" where
  "world0 = \<lparr>attempts = 0, trace = [], FlushMsgsTotal = 0, FlushMsgsErrorTotal = 0,
             ClickhouseReconnectTotal = 0, FlushBatchBacklog = 0\<rparr>"

definition batch2 :: "int Batch" where
  "batch2 = \<lparr>MsgRows = [Some [1], Some [2]], BatchIdx = 0, RealSize = 2\<rparr>"

definition batch0 :: "int Batch" where
  "batch0 = \<lparr>MsgRows = [], BatchIdx = 0, RealSize = 0\<rparr>"

text \<open>A connection on which every call succeeds.\<close>

definition drv_ok :: "int driver" where
  "drv_ok = \<lparr>begin_result = (\<lambda>n. None), prepare_result = (\<lambda>n q. None),
            exec_result = (\<lambda>n i vs. None), commit_result = (\<lambda>n. None)\<rparr>"

text \<open>A server that cannot be reached: every \<^verbatim>\<open>Begin\<close> fails.\<close>

definition drv_refused :: "int driver" where
  "drv_refused =
     drv_ok\<lparr>begin_result :=
              (\<lambda>n. Some \<lparr>message = ''dial tcp 127.0.0.1:9000: connect: connection refused'',
                          canceled = False\<rparr>)\<rparr>"

text \<open>A cancelled context: \<^verbatim>\<open>Begin\<close> returns \<^verbatim>\<open>context.Canceled\<close>.\<close>

definition drv_canceled :: "int driver" where
  "drv_canceled =
     drv_ok\<lparr>begin_result := (\<lambda>n. Some \<lparr>message = ''context canceled'', canceled = True\<rparr>)\<rparr>"

text \<open>The row at position 0 is refused, every other row executes.\<close>

definition drv_first_row_fails :: "int driver" where
  "drv_first_row_fails =
     drv_ok\<lparr>exec_result :=
              (\<lambda>n i vs. if i = 0 then Some \<lparr>message = ''clickhouse: wrong type'', canceled = False\<rparr>
                         else None)\<rparr>"

text \<open>The connection breaks after \<^verbatim>\<open>Prepare\<close>: every \<^verbatim>\<open>Exec\<close> returns \<^verbatim>\<open>driver.ErrBadConn\<close>.\<close>

definition drv_exec_bad_conn :: "int driver" where
  "drv_exec_bad_conn =
     drv_ok\<lparr>exec_result :=
              (\<lambda>n i vs. Some \<lparr>message = ''driver: bad connection'', canceled = False\<rparr>)\<rparr>"

text \<open>
  The catalog of the spec's end-to-end scenario: columns \<open>id\<close>, \<open>name\<close>, \<open>tags\<close> (wrapped)
  and \<open>computed_col\<close> (materialized); the sink excludes \<open>name\<close>.
\<close>

definition catalog_example :: "string \<Rightarrow> err + (string \<times> string \<times> string) list" where
  "catalog_example q =
     (if q = selectSQL ''db'' ''table''
      then Inr [(''id'', ''Int32'', []),
                (''name'', ''String'', []),
                (''tags'', ''LowCardinality(String)'', []),
                (''computed_col'', ''String'', ''MATERIALIZED'')]
      else Inl \<lparr>message = ''unknown table'', canceled = False\<rparr>)"

definition sink_auto :: ClickHouse where
  "sink_auto =
     \<lparr>Dims = [],
      taskCfg = \<lparr>task_Name = ''task'', Clickhouse = ''ch1'', TableName = ''table'',
                 AutoSchema = True, ExcludeColumns = [''name''], task_Dims = []\<rparr>,
      chCfg = \<lparr>DB = ''db'', RetryTimes = 3\<rparr>,
      prepareSQL = [], dms = []\<rparr>"


subsection \<open>Facts about the string functions\<close>

lemma has_prefix_iff: "has_prefix s p = (\<exists>post. s = p @ post)"
  by (induction s p rule: has_prefix.induct) auto

lemma Contains_iff: "Contains s sub = (\<exists>pre post. s = pre @ sub @ post)"
proof (induction s)
  case Nil
  then show ?case by auto
next
  case (Cons c cs)
  show ?case
  proof
    assume "Contains (c # cs) sub"
    then consider "has_prefix (c # cs) sub" | "Contains cs sub" by auto
    then show "\<exists>pre post. c # cs = pre @ sub @ post"
    proof cases
      case 1
      then obtain post where "c # cs = sub @ post" by (auto simp: has_prefix_iff)
      then have "c # cs = [] @ sub @ post" by simp
      then show ?thesis by blast
    next
      case 2
      with Cons obtain pre post where "cs = pre @ sub @ post" by auto
      then have "c # cs = (c # pre) @ sub @ post" by simp
      then show ?thesis by blast
    qed
  next
    assume "\<exists>pre post. c # cs = pre @ sub @ post"
    then obtain pre post where eq: "c # cs = pre @ sub @ post" by blast
    show "Contains (c # cs) sub"
    proof (cases pre)
      case Nil
      with eq have "has_prefix (c # cs) sub" by (auto simp: has_prefix_iff)
      then show ?thesis by simp
    next
      case (Cons a pre')
      with eq have "cs = pre' @ sub @ post" by simp
      with Cons.IH have "Contains cs sub" by blast
      then show ?thesis by simp
    qed
  qed
qed

subsection \<open>Facts about the batch executor\<close>

lemmas write_defs = write_batch_def emit_def reconnect_if_broken_def

lemmas scenario_defs = sink_def world0_def batch2_def batch0_def drv_ok_def drv_refused_def
  drv_canceled_def drv_first_row_fails_def drv_exec_bad_conn_def

lemma callbacks_append: "callbacks (xs @ ys) = callbacks xs @ callbacks ys"
  by (induction xs rule: callbacks.induct) auto

lemma callbacks_StmtExec: "callbacks (map StmtExec xs) = []"
  by (induction xs) auto

lemma shouldReconnect_Wrap: "shouldReconnect (Wrap e []) = shouldReconnect e"
  by (simp add: shouldReconnect_def Wrap_def)

text \<open>
  The loop over the rows executes every non-nil row, in order, whatever the rows before
  it returned, and touches nothing but the trace.
\<close>

lemma exec_rows_frame:
  "exec_rows drv n i rows (e, k, w) = (e', k', w') \<Longrightarrow>
     trace w' = trace w @ map StmtExec (non_nil_rows rows) \<and>
     attempts w' = attempts w \<and>
     FlushMsgsTotal w' = FlushMsgsTotal w \<and>
     FlushMsgsErrorTotal w' = FlushMsgsErrorTotal w \<and>
     ClickhouseReconnectTotal w' = ClickhouseReconnectTotal w \<and>
     FlushBatchBacklog w' = FlushBatchBacklog w"
proof (induction drv n i rows "(e, k, w)" arbitrary: e k w rule: exec_rows.induct)
  case (1 drv n i)
  then show ?case by simp
next
  case (2 drv n i rows)
  then show ?case by simp
next
  case (3 drv n i vs rows e numErr w)
  then show ?case
    by (cases "exec_result drv n i vs") (fastforce simp: emit_def)+
qed

lemma exec_rows_all_ok:
  "(\<And>j vs. j < length rows \<Longrightarrow> rows ! j = Some vs \<Longrightarrow> exec_result drv n (i + j) vs = None) \<Longrightarrow>
   exec_rows drv n i rows (None, k, w) = (None, k, w\<lparr>trace := trace w @ map StmtExec (non_nil_rows rows)\<rparr>)"
proof (induction rows arbitrary: i w)
  case Nil
  then show ?case by simp
next
  case (Cons r rows)
  have step: "\<And>j vs. j < length rows \<Longrightarrow> rows ! j = Some vs \<Longrightarrow> exec_result drv n (Suc i + j) vs = None"
    using Cons.prems [of "Suc j" for j] by simp
  show ?case
  proof (cases r)
    case None
    then show ?thesis using Cons.IH [OF step] by simp
  next
    case (Some vs)
    have "exec_result drv n i vs = None" using Cons.prems [of 0 vs] Some by simp
    then show ?thesis using Cons.IH [OF step, of "emit (StmtExec vs) w"] Some by (simp add: emit_def)
  qed
qed

text \<open>
  The variable \<^verbatim>\<open>err\<close> after the loop is what the last non-nil row returned: the rows
  before it do not count.
\<close>

lemma exec_rows_last_row_decides:
  "fst (exec_rows drv n i (rows @ [Some vs]) st) =
     map_option (\<lambda>e. Wrap e []) (exec_result drv n (i + length rows) vs)"
proof (induction rows arbitrary: i st)
  case Nil
  obtain e k w where st: "st = (e, k, w)" by (cases st)
  show ?case by (simp add: st split: option.splits)
next
  case (Cons r rows)
  obtain e k w where st: "st = (e, k, w)" by (cases st)
  show ?case
  proof (cases r)
    case None
    then show ?thesis using Cons.IH [of "Suc i" st] by simp
  next
    case (Some us)
    then show ?thesis
      using Cons.IH [of "Suc i"] by (simp add: st split: option.splits)
  qed
qed

text \<open>\<^verbatim>\<open>write\<close> never calls the callback and never touches the loss counter or the backlog.\<close>

lemma write_never_reports_loss_or_calls_back:
  "FlushMsgsErrorTotal (snd (write_batch c drv batch w)) = FlushMsgsErrorTotal w \<and>
   FlushBatchBacklog (snd (write_batch c drv batch w)) = FlushBatchBacklog w \<and>
   callbacks (trace (snd (write_batch c drv batch w))) = callbacks (trace w)"
proof (cases "exec_rows drv (attempts w) 0 (MsgRows batch)
                (None, 0, emit (TxPrepare (prepareSQL c)) (emit ConnBegin
                  (emit (GetConn (Clickhouse (taskCfg c)) (BatchIdx batch)) (w\<lparr>attempts := attempts w + 1\<rparr>))))")
  case (fields e k w3)
  note fr = exec_rows_frame [OF fields]
  show ?thesis
    using fr fields
    by (auto simp: write_defs Let_def callbacks_append callbacks_StmtExec split: option.splits)
qed

text \<open>The paths of \<^verbatim>\<open>write\<close> after \<^verbatim>\<open>Begin\<close> succeeded.\<close>

lemma write_prepare_failure:
  assumes "MsgRows batch \<noteq> []"
    and "begin_result drv (attempts w) = None"
    and "prepare_result drv (attempts w) (prepareSQL c) = Some e"
  shows "fst (write_batch c drv batch w) = Some e \<and>
         ClickhouseReconnectTotal (snd (write_batch c drv batch w)) =
           ClickhouseReconnectTotal w + (if shouldReconnect e then 1 else 0) \<and>
         FlushMsgsTotal (snd (write_batch c drv batch w)) = FlushMsgsTotal w"
  using assms by (simp add: write_defs)

lemma write_commit_failure:
  assumes "MsgRows batch \<noteq> []"
    and "begin_result drv (attempts w) = None"
    and "prepare_result drv (attempts w) (prepareSQL c) = None"
    and "\<And>i vs. i < length (MsgRows batch) \<Longrightarrow> MsgRows batch ! i = Some vs \<Longrightarrow>
           exec_result drv (attempts w) i vs = None"
    and "commit_result drv (attempts w) = Some e"
  shows "fst (write_batch c drv batch w) = Some (Wrap e []) \<and>
         ClickhouseReconnectTotal (snd (write_batch c drv batch w)) =
           ClickhouseReconnectTotal w + (if shouldReconnect (Wrap e []) then 1 else 0) \<and>
         FlushMsgsTotal (snd (write_batch c drv batch w)) = FlushMsgsTotal w"
proof -
  have ex: "exec_rows drv (attempts w) 0 (MsgRows batch) (None, 0, w2) =
              (None, 0, w2\<lparr>trace := trace w2 @ map StmtExec (non_nil_rows (MsgRows batch))\<rparr>)" for w2 :: "'a world"
    using exec_rows_all_ok [of "MsgRows batch" drv "attempts w" 0 0 w2] assms(4) by simp
  show ?thesis
    using assms(1,2,3,5) by (simp add: write_defs ex)
qed

text \<open>
  When the loop over the rows ends with an error, \<^verbatim>\<open>write\<close> returns it and closes the
  statement; this path has no call of \<^verbatim>\<open>shouldReconnect\<close>.
\<close>

lemma write_row_error_never_reconnects:
  assumes "MsgRows batch \<noteq> []"
    and "begin_result drv (attempts w) = None"
    and "prepare_result drv (attempts w) (prepareSQL c) = None"
    and "exec_rows drv (attempts w) 0 (MsgRows batch)
           (None, 0, emit (TxPrepare (prepareSQL c)) (emit ConnBegin
              (emit (GetConn (Clickhouse (taskCfg c)) (BatchIdx batch)) (w\<lparr>attempts := attempts w + 1\<rparr>)))) =
         (Some e, k, w3)"
  shows "fst (write_batch c drv batch w) = Some e \<and>
         ClickhouseReconnectTotal (snd (write_batch c drv batch w)) = ClickhouseReconnectTotal w \<and>
         trace (snd (write_batch c drv batch w)) =
           trace w @ [GetConn (Clickhouse (taskCfg c)) (BatchIdx batch), ConnBegin, TxPrepare (prepareSQL c)] @
           map StmtExec (non_nil_rows (MsgRows batch)) @ [StmtClose]"
  using assms exec_rows_frame [OF assms(4)] by (simp add: write_defs)

text \<open>An error the classifier rejects never leads to a reconnect, on any path.\<close>

lemma write_rejected_error_no_reconnect:
  assumes "fst (write_batch c drv batch w) = Some e" and "\<not> shouldReconnect e"
  shows "ClickhouseReconnectTotal (snd (write_batch c drv batch w)) = ClickhouseReconnectTotal w"
proof -
  let ?w2 = "emit (TxPrepare (prepareSQL c)) (emit ConnBegin
               (emit (GetConn (Clickhouse (taskCfg c)) (BatchIdx batch)) (w\<lparr>attempts := attempts w + 1\<rparr>)))"
  obtain e' k w3 where ex: "exec_rows drv (attempts w) 0 (MsgRows batch) (None, 0, ?w2) = (e', k, w3)"
    by (cases "exec_rows drv (attempts w) 0 (MsgRows batch) (None, 0, ?w2)")
  have "ClickhouseReconnectTotal w3 = ClickhouseReconnectTotal w"
    using exec_rows_frame [OF ex] by (simp add: emit_def)
  then show ?thesis
    using assms ex
    by (auto simp: write_defs Let_def split: if_splits option.splits)
qed

text \<open>
  When the last row of the batch is not nil and executes, and \<^verbatim>\<open>Commit\<close> succeeds, the
  attempt commits and succeeds, whatever the rows before it returned.
\<close>

lemma write_last_row_decides_commit:
  assumes "MsgRows batch = rows @ [Some vs]"
    and "begin_result drv (attempts w) = None"
    and "prepare_result drv (attempts w) (prepareSQL c) = None"
    and "exec_result drv (attempts w) (length rows) vs = None"
    and "commit_result drv (attempts w) = None"
  shows "fst (write_batch c drv batch w) = None \<and>
         FlushMsgsTotal (snd (write_batch c drv batch w)) = FlushMsgsTotal w + RealSize batch"
proof -
  let ?w2 = "emit (TxPrepare (prepareSQL c)) (emit ConnBegin
               (emit (GetConn (Clickhouse (taskCfg c)) (BatchIdx batch)) (w\<lparr>attempts := attempts w + 1\<rparr>)))"
  obtain e k w3 where ex: "exec_rows drv (attempts w) 0 (MsgRows batch) (None, 0, ?w2) = (e, k, w3)"
    by (cases "exec_rows drv (attempts w) 0 (MsgRows batch) (None, 0, ?w2)")
  have "e = None"
    using exec_rows_last_row_decides [of drv "attempts w" 0 rows vs "(None, 0, ?w2)"] assms(1,4) ex
    by simp
  moreover have "FlushMsgsTotal w3 = FlushMsgsTotal w"
    using exec_rows_frame [OF ex] by (simp add: emit_def)
  ultimately show ?thesis
    using assms ex by (simp add: write_defs)
qed

subsection \<open>Facts about the retry loop\<close>

text \<open>
  The decrement \<^verbatim>\<open>times--\<close> and the test \<^verbatim>\<open>times > 0\<close> on 64-bit integers: the test holds
  after the decrement when \<^verbatim>\<open>times\<close> was at least 2, and fails when it was at most 1
  (and not the least integer, where the decrement wraps around).
\<close>

lemma sless_pred: "2 \<le> sint (N :: 64 word) \<Longrightarrow> 0 <s N - 1"
proof -
  assume a: "2 \<le> sint N"
  have b: "sint N < 2 ^ 63" using sint_lt [of N] by simp
  have "sint (N - 1) = signed_take_bit 63 (sint N - 1)"
    by (simp add: sint_word_ariths)
  also have "\<dots> = sint N - 1"
    using a b by (intro signed_take_bit_int_eq_self) auto
  finally show ?thesis using a by (simp add: word_sless_alt)
qed

lemma sle_pred: "sint (N :: 64 word) \<le> 1 \<Longrightarrow> - (2 ^ 63) < sint N \<Longrightarrow> \<not> 0 <s N - 1"
proof -
  assume a: "sint N \<le> 1" and b: "- (2 ^ 63) < sint N"
  have "sint (N - 1) = signed_take_bit 63 (sint N - 1)"
    by (simp add: sint_word_ariths)
  also have "\<dots> = sint N - 1"
    using a b by (intro signed_take_bit_int_eq_self) auto
  finally show ?thesis using a by (simp add: word_sless_alt)
qed

text \<open>
  With at least two tries left, the first failure that is not a cancellation already takes
  the branch that records the loss: the loop returns after one call of \<^verbatim>\<open>write\<close>.
\<close>

lemma loop_first_failure_gives_up:
  assumes "write_batch c drv batch w = (Some e, w1)" and "\<not> canceled e" and "2 \<le> sint tm"
  shows "loop (Suc fuel) c drv batch tm w =
           Returned (tm - 1, w1\<lparr>FlushMsgsErrorTotal := FlushMsgsErrorTotal w1 + RealSize batch\<rparr>)"
  using assms sless_pred [of tm] by (simp add: Let_def)

text \<open>With at most one try left, a failure sleeps and tries again.\<close>

lemma loop_failure_retries:
  assumes "write_batch c drv batch w = (Some e, w1)" and "\<not> canceled e"
    and "sint tm \<le> 1" and "- (2 ^ 63) < sint tm"
  shows "loop (Suc fuel) c drv batch tm w = loop fuel c drv batch (tm - 1) (emit (Sleep 10) w1)"
  using assms sle_pred [of tm] by (simp add: Let_def)

text \<open>
  With a budget of one, three iterations have made three attempts and three reconnects,
  and the loop has not returned.
\<close>

lemma loopWrite_budget_one_keeps_retrying:
  "loopWrite 3 (sink 1) drv_refused batch2 world0 =
     StillLooping (- 2, \<lparr>attempts = 3,
        trace = [GetConn ''ch1'' 0, ConnBegin, ConnReConnect, Sleep 10,
                 GetConn ''ch1'' 0, ConnBegin, ConnReConnect, Sleep 10,
                 GetConn ''ch1'' 0, ConnBegin, ConnReConnect, Sleep 10],
        FlushMsgsTotal = 0, FlushMsgsErrorTotal = 0,
        ClickhouseReconnectTotal = 3, FlushBatchBacklog = 0\<rparr>)"
  by (simp add: loopWrite_def write_defs scenario_defs shouldReconnect_def numeral_3_eq_3 word_sless_alt)

subsection \<open>Facts about the schema resolver\<close>






lemma count_placeholders:
  "length (filter (\<lambda>ch. ch = CHR ''?'') (Join (replicate n ''?'') '','')) = n"
proof (induction n)
  case 0
  then show ?case by simp
next
  case (Suc n)
  then show ?case by (cases n) simp_all
qed

text \<open>The end-to-end scenario: the resolved columns are \<open>id\<close> and \<open>tags\<close>.\<close>

lemma initSchema_example:
  "initSchema catalog_example (\<lambda>name. name) sink_auto =
     Inr (sink_auto\<lparr>Dims := [\<lparr>Name = ''id'', Type = ''Int32'', SourceName = ''id''\<rparr>,
                             \<lparr>Name = ''tags'', Type = ''String'', SourceName = ''tags''\<rparr>],
                    dms := [''id'', ''tags''],
                    prepareSQL := ''INSERT INTO db.table (id,tags) VALUES (?,?)''\<rparr>)"
  by (simp add: initSchema_def catalog_example_def sink_auto_def lowCardinality_open_def)

text \<open>
  The group of the pattern is greedy: a wrapper inside a type with more parentheses after
  it takes everything up to the last one.
\<close>

lemma ReplaceAllString_greedy_example:
  "ReplaceAllString ''Tuple(LowCardinality(String), Int32)'' = ''Tuple(String), Int32''"
  by (simp add: lowCardinality_open_def)


subsection \<open>Claims about the failure classifier\<close>

text \<open>
  C6: \<^verbatim>\<open>shouldReconnect(err)\<close> is a function of the error alone, and it returns true
  exactly when the error's message contains the byte string "connection refused" or the
  byte string "bad connection" somewhere inside it; the comparison is byte for byte, so a
  message in another letter case is rejected.
\<close>

theorem shouldReconnect_iff_substring:
  "shouldReconnect e =
     ((\<exists>pre post. message e = pre @ ''connection refused'' @ post) \<or>
      (\<exists>pre post. message e = pre @ ''bad connection'' @ post))"
  by (simp only: shouldReconnect_def Contains_iff if_bool_eq_conj) blast

subsection \<open>Claims about the batch executor\<close>

text \<open>
  C5: for every batch with zero rows, \<^verbatim>\<open>write\<close> returns nil at once and leaves the world as
  it was: no connection is acquired, no transaction begun, no statement prepared, no row
  executed and no counter touched.
\<close>

theorem write_empty_batch:
  "MsgRows batch = [] \<Longrightarrow> write_batch c drv batch w = (None, w)"
  by (simp add: write_batch_def)

theorem write_empty_batch_witness:
  "MsgRows batch0 = [] \<and> write_batch (sink 3) drv_refused batch0 world0 = (None, world0)"
  using write_empty_batch [of batch0 "sink 3" drv_refused world0] by (simp add: batch0_def)

text \<open>
  C10: when \<^verbatim>\<open>Begin\<close> fails on a non-empty batch, \<^verbatim>\<open>write\<close> returns that error; the only
  calls it has made are \<^verbatim>\<open>GetConn\<close>, \<^verbatim>\<open>Begin\<close> and, for an error the classifier accepts,
  \<^verbatim>\<open>ReConnect\<close>: no statement is prepared and no row executed. The reconnect counter grows
  by one exactly for such an error; the flushed, loss and backlog counters are unchanged.
\<close>

theorem write_begin_failure:
  assumes "MsgRows batch \<noteq> []" and "begin_result drv (attempts w) = Some e"
  shows "fst (write_batch c drv batch w) = Some e \<and>
         trace (snd (write_batch c drv batch w)) =
           trace w @ [GetConn (Clickhouse (taskCfg c)) (BatchIdx batch), ConnBegin] @
           (if shouldReconnect e then [ConnReConnect] else []) \<and>
         ClickhouseReconnectTotal (snd (write_batch c drv batch w)) =
           ClickhouseReconnectTotal w + (if shouldReconnect e then 1 else 0) \<and>
         FlushMsgsTotal (snd (write_batch c drv batch w)) = FlushMsgsTotal w \<and>
         FlushMsgsErrorTotal (snd (write_batch c drv batch w)) = FlushMsgsErrorTotal w \<and>
         FlushBatchBacklog (snd (write_batch c drv batch w)) = FlushBatchBacklog w"
  using assms by (simp add: write_defs)

theorem write_begin_failure_witness:
  "MsgRows batch2 \<noteq> [] \<and>
   begin_result drv_refused (attempts world0) =
     Some \<lparr>message = ''dial tcp 127.0.0.1:9000: connect: connection refused'', canceled = False\<rparr> \<and>
   fst (write_batch (sink 3) drv_refused batch2 world0) =
     Some \<lparr>message = ''dial tcp 127.0.0.1:9000: connect: connection refused'', canceled = False\<rparr> \<and>
   trace (snd (write_batch (sink 3) drv_refused batch2 world0)) = [GetConn ''ch1'' 0, ConnBegin, ConnReConnect] \<and>
   ClickhouseReconnectTotal (snd (write_batch (sink 3) drv_refused batch2 world0)) = 1 \<and>
   FlushMsgsTotal (snd (write_batch (sink 3) drv_refused batch2 world0)) = 0 \<and>
   FlushMsgsErrorTotal (snd (write_batch (sink 3) drv_refused batch2 world0)) = 0"
proof -
  have rows: "MsgRows batch2 \<noteq> []" by (simp add: batch2_def)
  have res: "begin_result drv_refused (attempts world0) =
     Some \<lparr>message = ''dial tcp 127.0.0.1:9000: connect: connection refused'', canceled = False\<rparr>"
    by (simp add: drv_refused_def)
  have broken: "shouldReconnect \<lparr>message = ''dial tcp 127.0.0.1:9000: connect: connection refused'', canceled = False\<rparr>"
    by (simp add: shouldReconnect_def)
  show ?thesis
    using write_begin_failure [OF rows res, of "sink 3"] rows res broken
    by (simp add: sink_def world0_def batch2_def)
qed

text \<open>
  C2: the claim is that a batch in which some non-nil row fails to execute is never
  committed and that \<^verbatim>\<open>write\<close> returns an error for it. The source does execute every row
  after a failure, but \<^verbatim>\<open>_, err = stmt.Exec(...)\<close> overwrites \<^verbatim>\<open>err\<close> at each row: in a batch
  of two rows whose first row fails and whose second row executes, \<^verbatim>\<open>write\<close> commits,
  adds the batch to the flushed counter and returns nil.
\<close>

theorem write_commits_after_failed_row:
  "write_batch (sink 3) drv_first_row_fails batch2 world0 =
     (None, \<lparr>attempts = 1,
             trace = [GetConn ''ch1'' 0, ConnBegin, TxPrepare ''INSERT INTO db.table (id) VALUES (?)'',
                      StmtExec [1], StmtExec [2], TxCommit, StmtClose],
             FlushMsgsTotal = 2, FlushMsgsErrorTotal = 0,
             ClickhouseReconnectTotal = 0, FlushBatchBacklog = 0\<rparr>) \<and>
   exec_result drv_first_row_fails 0 0 [1] = Some \<lparr>message = ''clickhouse: wrong type'', canceled = False\<rparr>"
  by (simp add: write_defs scenario_defs)

text \<open>
  C9: the claim is that every failed attempt whose error the classifier accepts reconnects
  and counts the reconnect once. After \<^verbatim>\<open>Begin\<close>, \<^verbatim>\<open>Prepare\<close> and \<^verbatim>\<open>Commit\<close> the source does
  so, but not after the loop over the rows: when \<^verbatim>\<open>Exec\<close> fails with "driver: bad
  connection", \<^verbatim>\<open>write\<close> returns an error the classifier accepts, and neither calls
  \<^verbatim>\<open>ReConnect\<close> nor counts one.
\<close>

theorem write_exec_bad_connection_no_reconnect:
  "write_batch (sink 3) drv_exec_bad_conn batch2 world0 =
     (Some \<lparr>message = '': driver: bad connection'', canceled = False\<rparr>,
      \<lparr>attempts = 1,
         trace = [GetConn ''ch1'' 0, ConnBegin, TxPrepare ''INSERT INTO db.table (id) VALUES (?)'',
                  StmtExec [1], StmtExec [2], StmtClose],
         FlushMsgsTotal = 0, FlushMsgsErrorTotal = 0,
         ClickhouseReconnectTotal = 0, FlushBatchBacklog = 0\<rparr>) \<and>
   shouldReconnect \<lparr>message = '': driver: bad connection'', canceled = False\<rparr>"
  by (simp add: write_defs scenario_defs Wrap_def shouldReconnect_def)

subsection \<open>Claims about the retry loop\<close>



text \<open>
  C4: in any iteration of the retry loop, when \<^verbatim>\<open>write\<close> returns an error that is a
  cancellation, the loop returns in that iteration with \<^verbatim>\<open>times\<close> as it was and the world
  as \<^verbatim>\<open>write\<close> left it: the callback has not been called and the loss counter has not
  changed.
\<close>

theorem loop_cancellation_exits:
  assumes "write_batch c drv batch w = (Some e, w1)" and "canceled e"
  shows "loop (Suc fuel) c drv batch tm w = Returned (tm, w1) \<and>
         callbacks (trace w1) = callbacks (trace w) \<and>
         FlushMsgsErrorTotal w1 = FlushMsgsErrorTotal w"
  using assms write_never_reports_loss_or_calls_back [of c drv batch w] by simp

theorem loop_cancellation_exits_witness:
  "write_batch (sink 3) drv_canceled batch2 world0 =
     (Some \<lparr>message = ''context canceled'', canceled = True\<rparr>,
      world0\<lparr>attempts := 1, trace := [GetConn ''ch1'' 0, ConnBegin]\<rparr>) \<and>
   canceled \<lparr>message = ''context canceled'', canceled = True\<rparr> \<and>
   loop (Suc 0) (sink 3) drv_canceled batch2 3 world0 =
     Returned (3, world0\<lparr>attempts := 1, trace := [GetConn ''ch1'' 0, ConnBegin]\<rparr>) \<and>
   callbacks (trace (world0\<lparr>attempts := 1, trace := [GetConn ''ch1'' 0, ConnBegin]\<rparr>)) = callbacks (trace world0) \<and>
   FlushMsgsErrorTotal (world0\<lparr>attempts := 1, trace := [GetConn ''ch1'' 0, ConnBegin]\<rparr>) = FlushMsgsErrorTotal world0"
proof -
  have w: "write_batch (sink 3) drv_canceled batch2 world0 =
     (Some \<lparr>message = ''context canceled'', canceled = True\<rparr>,
      world0\<lparr>attempts := 1, trace := [GetConn ''ch1'' 0, ConnBegin]\<rparr>)"
    by (simp add: write_defs scenario_defs shouldReconnect_def)
  have c: "canceled \<lparr>message = ''context canceled'', canceled = True\<rparr>" by simp
  show ?thesis
    using loop_cancellation_exits [OF w c, of 0 3] w by simp
qed

text \<open>
  C1: the claim is that a batch whose attempts keep failing with a connection-broken
  error is given up only when the retry budget is spent. With \<^verbatim>\<open>RetryTimes\<close> 3 and a
  server that refuses every connection, \<^verbatim>\<open>loopWrite\<close> returns after a single attempt:
  \<^verbatim>\<open>times\<close> is 2 when it takes the branch \<^verbatim>\<open>times > 0\<close>, which records the batch's
  \<^verbatim>\<open>RealSize\<close> as lost.
\<close>

theorem loopWrite_gives_up_before_budget_is_spent:
  "loopWrite (Suc fuel) (sink 3) drv_refused batch2 world0 =
     Returned (2, \<lparr>attempts = 1, trace = [GetConn ''ch1'' 0, ConnBegin, ConnReConnect],
                   FlushMsgsTotal = 0, FlushMsgsErrorTotal = 2,
                   ClickhouseReconnectTotal = 1, FlushBatchBacklog = - 1\<rparr>)"
  by (simp add: loopWrite_def write_defs scenario_defs shouldReconnect_def word_sless_alt)

subsection \<open>Claims about the schema resolver\<close>



text \<open>
  C8: whenever \<^verbatim>\<open>initSchema\<close> succeeds, in either mode, the insert statement is
  \<^verbatim>\<open>INSERT INTO <database>.<table> (<columns>) VALUES (<placeholders>)\<close>: the columns are the
  names of the resolved columns in resolved order, joined by commas, and the placeholders
  are one question mark per resolved column, joined by commas, so that the placeholder
  list holds exactly as many question marks as there are resolved columns.
\<close>

theorem initSchema_insert_statement:
  assumes "initSchema Query GetSourceName c = Inr c'"
  shows "prepareSQL c' =
           ''INSERT INTO '' @ DB (chCfg c) @ ''.'' @ TableName (taskCfg c) @
           '' ('' @ Join (map Name (Dims c')) '','' @ '') VALUES ('' @
           Join (replicate (length (Dims c')) ''?'') '','' @ '')'' \<and>
         dms c' = map Name (Dims c') \<and>
         length (filter (\<lambda>ch. ch = CHR ''?'') (Join (replicate (length (Dims c')) ''?'') '','')) =
           length (Dims c')"
  using assms
  by (auto simp: initSchema_def Let_def count_placeholders split: if_splits sum.splits)

theorem initSchema_insert_statement_witness:
  "initSchema catalog_example (\<lambda>name. name) sink_auto =
     Inr (sink_auto\<lparr>Dims := [\<lparr>Name = ''id'', Type = ''Int32'', SourceName = ''id''\<rparr>,
                             \<lparr>Name = ''tags'', Type = ''String'', SourceName = ''tags''\<rparr>],
                    dms := [''id'', ''tags''],
                    prepareSQL := ''INSERT INTO db.table (id,tags) VALUES (?,?)''\<rparr>) \<and>
   prepareSQL (sink_auto\<lparr>Dims := [\<lparr>Name = ''id'', Type = ''Int32'', SourceName = ''id''\<rparr>,
                             \<lparr>Name = ''tags'', Type = ''String'', SourceName = ''tags''\<rparr>],
                    dms := [''id'', ''tags''],
                    prepareSQL := ''INSERT INTO db.table (id,tags) VALUES (?,?)''\<rparr>) =
     ''INSERT INTO db.table (id,tags) VALUES (?,?)'' \<and>
   length (filter (\<lambda>ch. ch = CHR ''?'') (Join (replicate 2 ''?'') '','')) = 2"
  using initSchema_insert_statement [OF initSchema_example] initSchema_example
  by (simp add: numeral_2_eq_2)


end
